theory Spec2Isabelle
  imports Complex_Main "HOL-Library.Word"
begin

section \<open>Go values shared by the two packages\<close>

text \<open>
  Go's \<open>int\<close> is a machine integer; it is taken at 64 bits, read as two's complement
  by \<open>sint\<close> and compared with the signed orders \<open>\<le>s\<close> and \<open><s\<close>. \<open>Page++\<close> wraps.
\<close>

type_synonym go_int = "64 word"

text \<open>
  Error values. The sentinels of the repository are constructors; \<open>errors_New\<close> is
  \<open>errors.New(msg)\<close> as written in the source, and \<open>LibError\<close> is an error produced
  by the standard library (\<open>os\<close>, \<open>net/http\<close>, \<open>encoding/json\<close>, \<open>mime/multipart\<close>),
  known by its message only.
\<close>

datatype error =
    ErrEndPage
  | ErrUnsupportedSortingOrder
  | ErrPageOutOfBound
  | ErrSizeOutOfBound
  | errors_New string
  | LibError string

text \<open>A value a goroutine can be panicking with: an error, or any other value.\<close>

datatype panic_value = PanicError error | PanicOther string

text \<open>
  How the body of a method comes to run. \<open>Called\<close>: by a call expression such as
  \<open>bi.Result(1)\<close>. \<open>Deferred p\<close>: the method itself was the operand of a \<open>defer\<close>
  statement and the runtime is now running it, \<open>p\<close> being the panic the goroutine is
  unwinding with (\<open>None\<close> when the surrounding function is returning normally).

  The built-in \<open>recover()\<close> returns nil unless the goroutine is panicking and
  \<open>recover\<close> was called directly by a deferred function; then it returns the panic
  value and stops the panicking sequence.
\<close>

datatype invocation = Called | Deferred "panic_value option"

fun recover :: "invocation \<Rightarrow> panic_value option" where
  "recover Called = None"
| "recover (Deferred p) = p"

text \<open>
  How a setter ends: \<open>return bi\<close>; the \<open>panic(...)\<close> of its validation; or
  \<open>log.Panicln(r)\<close> inside \<open>if r := recover(); r != nil { ... }\<close>, which logs \<open>r\<close>
  and panics. \<open>LogPanicln\<close> is produced by that block and by nothing else.
\<close>

datatype outcome = Returned | Panicked error | LogPanicln panic_value

definition recover_block :: "invocation \<Rightarrow> outcome" where
  "recover_block how = (case recover how of None \<Rightarrow> Returned | Some r \<Rightarrow> LogPanicln r)"

text \<open>
  What the sources import and \<open>src/\<close> does not hold, taken as parameters: of the
  repository's package \<open>internal/common\<close> the constants \<open>KeyPrefix\<close> and
  \<open>Authorization\<close> and the function \<open>FormatKey\<close>; of the standard library
  \<open>strings.TrimSpace\<close> and \<open>url.QueryEscape\<close>; of package \<open>vision\<close> the
  package-level \<open>prefix\<close> of its endpoints.
\<close>

record env =
  KeyPrefix :: string
  FormatKey :: "string \<Rightarrow> string"
  Authorization :: string
  TrimSpace :: "string \<Rightarrow> string"
  QueryEscape :: "string \<Rightarrow> string"
  prefix :: string

subsection \<open>HTTP requests\<close>

text \<open>
  A request body is absent (\<open>nil\<close>) or the multipart form that \<open>Collect\<close> writes:
  its fields in order, then one file part (field name, file name, bytes).
\<close>

datatype body = NoBody | Multipart "(string \<times> string) list" "string \<times> string \<times> string"

text \<open>
  \<open>Header\<close> lists the entries in the order they were added. \<open>Header_Set\<close> replaces
  the entries of a key, \<open>Header_Add\<close> appends one (the canonical spelling of keys
  that \<open>net/http\<close> applies is left out).
\<close>

record request =
  Method :: string
  URL :: string
  Header :: "(string \<times> string) list"
  Body :: body
  Close :: bool

definition Header_Set :: "string \<Rightarrow> string \<Rightarrow> request \<Rightarrow> request" where
  "Header_Set k v req = req\<lparr>Header := filter (\<lambda>kv. fst kv \<noteq> k) (Header req) @ [(k, v)]\<rparr>"

definition Header_Add :: "string \<Rightarrow> string \<Rightarrow> request \<Rightarrow> request" where
  "Header_Add k v req = req\<lparr>Header := Header req @ [(k, v)]\<rparr>"

text \<open>
  The world one execution talks to, for a result type \<open>'r\<close>:
  \<open>NewRequest method url\<close> is the error of \<open>http.NewRequest\<close> (\<open>None\<close>: the request
  is built); \<open>client_Do req\<close> is the error of the transfer or the body of the
  response; \<open>Decode body\<close> is what \<open>json.NewDecoder(body).Decode(&res)\<close> leaves in
  \<open>res\<close> (starting from the zero value) and its error.
\<close>

record 'r http =
  NewRequest :: "string \<Rightarrow> string \<Rightarrow> string option"
  client_Do :: "request \<Rightarrow> string + string"
  Decode :: "string \<Rightarrow> 'r \<times> string option"

definition new_request :: "string \<Rightarrow> string \<Rightarrow> body \<Rightarrow> request" where
  "new_request m u b = \<lparr>Method = m, URL = u, Header = [], Body = b, Close = False\<rparr>"

subsection \<open>\<open>fmt.Sprintf\<close> with \<open>%d\<close>\<close>

definition digit_char :: "nat \<Rightarrow> char" where
  "digit_char d = ''0123456789'' ! d"

fun digits10 :: "nat \<Rightarrow> string" where
  "digits10 n = (if n < 10 then [digit_char n] else digits10 (n div 10) @ [digit_char (n mod 10)])"

declare digits10.simps [simp del]

definition Sprint_d :: "go_int \<Rightarrow> string" where
  "Sprint_d i = (if sint i < 0 then CHR ''-'' # digits10 (nat (- sint i)) else digits10 (nat (sint i)))"

section \<open>Package daum: book search\<close>

text \<open>
  Modelled from the spec: \<open>common.PageableMeta\<close> is declared in \<open>internal/common\<close>,
  which \<open>src/\<close> does not hold. The spec gives the pagination metadata block a total
  count and an end-of-results flag; \<open>Next\<close> reads the flag as \<open>res.Meta.IsEnd\<close>.
\<close>

record PageableMeta =
  TotalCount :: go_int
  IsEnd :: bool

text \<open>\<open>WebResult\<close>, embedded in \<open>BookResult\<close>, is declared outside \<open>src/\<close>: a type parameter.\<close>

record 'w BookResult =
  WebResult :: 'w
  ISBN :: string
  Authors :: "string list"
  Publisher :: string
  Translators :: "string list"
  Price :: go_int
  SalePrice :: go_int
  Thumbnail :: string
  Status :: string

record 'w BookSearchResult =
  Meta :: PageableMeta
  Documents :: "'w BookResult list"

text \<open>The zero value of \<open>BookSearchResult\<close>: what the named result \<open>res\<close> holds until decoded into.\<close>

definition zero_BookSearchResult :: "'w BookSearchResult" where
  "zero_BookSearchResult = \<lparr>Meta = \<lparr>TotalCount = 0, IsEnd = False\<rparr>, Documents = []\<rparr>"

text \<open>The unexported field \<open>end\<close> is named \<open>ended\<close> (\<open>end\<close> is a keyword here).\<close>

record BookSearchIterator =
  Query :: string
  AuthKey :: string
  Sort :: string
  Page :: go_int
  Size :: go_int
  Target :: string
  ended :: bool

definition BookSearch :: "env \<Rightarrow> string \<Rightarrow> BookSearchIterator" where
  "BookSearch c query =
     \<lparr>Query = QueryEscape c (TrimSpace c query),
      AuthKey = KeyPrefix c,
      Sort = ''accuracy'',
      Page = 1,
      Size = 10,
      Target = [],
      ended = False\<rparr>"

definition AuthorizeWith :: "env \<Rightarrow> string \<Rightarrow> BookSearchIterator \<Rightarrow> BookSearchIterator" where
  "AuthorizeWith c key bi = bi\<lparr>AuthKey := FormatKey c key\<rparr>"

text \<open>
  The setters write through the pointer \<open>bi\<close>: each returns the iterator as the call
  leaves it, and how the call ended.
\<close>

definition SortBy :: "invocation \<Rightarrow> string \<Rightarrow> BookSearchIterator \<Rightarrow> BookSearchIterator \<times> outcome" where
  "SortBy how order bi =
     (if order = ''accuracy'' \<or> order = ''latest''
      then (bi\<lparr>Sort := order\<rparr>, recover_block how)
      else (bi, Panicked ErrUnsupportedSortingOrder))"

definition Result :: "invocation \<Rightarrow> go_int \<Rightarrow> BookSearchIterator \<Rightarrow> BookSearchIterator \<times> outcome" where
  "Result how page bi =
     (if 1 \<le>s page \<and> page \<le>s 50
      then (bi\<lparr>Page := page\<rparr>, recover_block how)
      else (bi, Panicked ErrPageOutOfBound))"

definition Display :: "invocation \<Rightarrow> go_int \<Rightarrow> BookSearchIterator \<Rightarrow> BookSearchIterator \<times> outcome" where
  "Display how sz bi =
     (if 1 \<le>s sz \<and> sz \<le>s 50
      then (bi\<lparr>Size := sz\<rparr>, recover_block how)
      else (bi, Panicked ErrSizeOutOfBound))"

definition Filter_target_message :: string where
  "Filter_target_message =
     ''target must be one of the following options:''
       @ [CHR 0x0A, CHR 0x09, CHR 0x09, CHR 0x09]
       @ ''title, isbn, publisher, person''"

definition Filter :: "invocation \<Rightarrow> string \<Rightarrow> BookSearchIterator \<Rightarrow> BookSearchIterator \<times> outcome" where
  "Filter how target bi =
     (if target = ''title'' \<or> target = ''isbn'' \<or> target = ''publisher'' \<or> target = ''person''
         \<or> target = []
      then (bi\<lparr>Target := target\<rparr>, recover_block how)
      else (bi, Panicked (errors_New Filter_target_message)))"

text \<open>The URL that \<open>Next\<close> formats from the iterator.\<close>

definition Next_url :: "BookSearchIterator \<Rightarrow> string" where
  "Next_url bi =
     ''https://dapi.kakao.com/v3/search/book?query='' @ Query bi
       @ ''&sort='' @ Sort bi
       @ ''&page='' @ Sprint_d (Page bi)
       @ ''&size='' @ Sprint_d (Size bi)
       @ ''&target='' @ Target bi"

definition Next_request :: "env \<Rightarrow> BookSearchIterator \<Rightarrow> request" where
  "Next_request c bi =
     Header_Set (Authorization c) (AuthKey bi)
       ((new_request ''GET'' (Next_url bi) NoBody)\<lparr>Close := True\<rparr>)"

text \<open>
  One run of \<open>Next\<close>: the results \<open>res\<close> and \<open>err\<close>, the iterator as the call leaves
  it, and the requests handed to \<open>client.Do\<close>.
\<close>

record 'w next_run =
  res :: "'w BookSearchResult"
  err :: "error option"
  iter :: BookSearchIterator
  sent :: "request list"

definition Next :: "env \<Rightarrow> 'w BookSearchResult http \<Rightarrow> BookSearchIterator \<Rightarrow> 'w next_run" where
  "Next c h bi =
     (if ended bi
      then \<lparr>res = zero_BookSearchResult, err = Some ErrEndPage, iter = bi, sent = []\<rparr>
      else
        (case NewRequest h ''GET'' (Next_url bi) of
           Some e \<Rightarrow> \<lparr>res = zero_BookSearchResult, err = Some (LibError e), iter = bi, sent = []\<rparr>
         | None \<Rightarrow>
            (let req = Next_request c bi in
             case client_Do h req of
               Inl e \<Rightarrow>
                 \<lparr>res = zero_BookSearchResult, err = Some (LibError e), iter = bi, sent = [req]\<rparr>
             | Inr resp_body \<Rightarrow>
                (case Decode h resp_body of
                   (r, Some e) \<Rightarrow> \<lparr>res = r, err = Some (LibError e), iter = bi, sent = [req]\<rparr>
                 | (r, None) \<Rightarrow>
                    (let bi1 = bi\<lparr>Page := Page bi + 1\<rparr>;
                         bi2 = bi1\<lparr>ended := (IsEnd (Meta r) \<or> 50 <s Page bi1)\<rparr>
                     in \<lparr>res = r, err = None, iter = bi2, sent = [req]\<rparr>)))))"

text \<open>
  A chain \<open>bi.A(x).B(y)\<close>: the second call runs on the iterator the first returned;
  a panic ends the chain.
\<close>

fun and_then ::
  "BookSearchIterator \<times> outcome \<Rightarrow> (BookSearchIterator \<Rightarrow> BookSearchIterator \<times> outcome)
     \<Rightarrow> BookSearchIterator \<times> outcome" where
  "and_then (bi, Returned) f = f bi"
| "and_then (bi, Panicked e) f = (bi, Panicked e)"
| "and_then (bi, LogPanicln r) f = (bi, LogPanicln r)"

text \<open>
  The setters as values, to speak of any of them: which field a setter writes, when
  its argument is valid, and the call itself.
\<close>

datatype setter =
    Set_AuthorizeWith string
  | Set_SortBy string
  | Set_Result go_int
  | Set_Display go_int
  | Set_Filter string

datatype field = Field_AuthKey | Field_Sort | Field_Page | Field_Size | Field_Target

fun field_of :: "setter \<Rightarrow> field" where
  "field_of (Set_AuthorizeWith key) = Field_AuthKey"
| "field_of (Set_SortBy order) = Field_Sort"
| "field_of (Set_Result page) = Field_Page"
| "field_of (Set_Display sz) = Field_Size"
| "field_of (Set_Filter target) = Field_Target"

fun valid_argument :: "setter \<Rightarrow> bool" where
  "valid_argument (Set_AuthorizeWith key) = True"
| "valid_argument (Set_SortBy order) = (order = ''accuracy'' \<or> order = ''latest'')"
| "valid_argument (Set_Result page) = (1 \<le> sint page \<and> sint page \<le> 50)"
| "valid_argument (Set_Display sz) = (1 \<le> sint sz \<and> sint sz \<le> 50)"
| "valid_argument (Set_Filter target) =
     (target \<in> {''title'', ''isbn'', ''publisher'', ''person'', []})"

fun call_setter :: "env \<Rightarrow> invocation \<Rightarrow> setter \<Rightarrow> BookSearchIterator \<Rightarrow> BookSearchIterator \<times> outcome" where
  "call_setter c how (Set_AuthorizeWith key) bi = (AuthorizeWith c key bi, Returned)"
| "call_setter c how (Set_SortBy order) bi = SortBy how order bi"
| "call_setter c how (Set_Result page) bi = Result how page bi"
| "call_setter c how (Set_Display sz) bi = Display how sz bi"
| "call_setter c how (Set_Filter target) bi = Filter how target bi"

text \<open>
  The operations on an iterator, each with what it is given (a \<open>Next\<close> with the world
  it talks to), and the iterator an operation leaves behind, however it ended.
\<close>

datatype 'w operation =
    Op_Next "'w BookSearchResult http"
  | Op_Setter invocation setter

fun after :: "env \<Rightarrow> 'w operation \<Rightarrow> BookSearchIterator \<Rightarrow> BookSearchIterator" where
  "after c (Op_Next h) bi = iter (Next c h bi)"
| "after c (Op_Setter how s) bi = fst (call_setter c how s bi)"

fun after_all :: "env \<Rightarrow> 'w operation list \<Rightarrow> BookSearchIterator \<Rightarrow> BookSearchIterator" where
  "after_all c [] bi = bi"
| "after_all c (x # xs) bi = after_all c xs (after c x bi)"


section \<open>Package vision: face detection\<close>

text \<open>
  \<open>float64\<close> is left abstract (a type parameter \<open>'f\<close>); the source needs its order,
  three literals and \<open>fmt.Sprintf("%f", x)\<close>.
\<close>

record 'f float64_ops =
  f64_le :: "'f \<Rightarrow> 'f \<Rightarrow> bool"
  f64_0_1 :: 'f
  f64_0_7 :: 'f
  f64_1_0 :: 'f
  Sprint_f :: "'f \<Rightarrow> string"

record 'f Gender =
  Male :: 'f
  Female :: 'f

record 'f FacialAttributes =
  Gender :: "'f Gender"
  Age :: 'f

record 'f FacialPoints =
  Jaw :: "'f list list"
  RightEyebrow :: "'f list list"
  LeftEyebrow :: "'f list list"
  Nose :: "'f list list"
  RightEye :: "'f list list"
  LeftEye :: "'f list list"
  Lip :: "'f list list"

record 'f Face =
  FacialAttributes :: "'f FacialAttributes"
  FacialPoints :: "'f FacialPoints"
  Score :: 'f
  ClassIdx :: go_int
  X :: 'f
  Y :: 'f
  W :: 'f
  H :: 'f
  Pitch :: 'f
  Yaw :: 'f
  Roll :: 'f

record 'f FaceResult =
  Width :: go_int
  Height :: go_int
  Faces :: "'f Face list"

text \<open>The field \<open>Result\<close> is named \<open>fr_Result\<close> (\<open>Result\<close> is the setter of package daum).\<close>

record 'f FaceDetectResult =
  RID :: string
  fr_Result :: "'f FaceResult"

definition zero_FaceDetectResult :: "'f FaceDetectResult" where
  "zero_FaceDetectResult = \<lparr>RID = [], fr_Result = \<lparr>Width = 0, Height = 0, Faces = []\<rparr>\<rparr>"

text \<open>The field \<open>AuthKey\<close> is named \<open>fi_AuthKey\<close>, the method \<open>AuthorizeWith\<close> \<open>fi_AuthorizeWith\<close>.\<close>

record 'f FaceDetectInitializer =
  fi_AuthKey :: string
  Filename :: string
  ImageURL :: string
  Threshold :: 'f
  withFile :: bool

definition FaceDetect :: "'f float64_ops \<Rightarrow> env \<Rightarrow> 'f FaceDetectInitializer" where
  "FaceDetect fl c =
     \<lparr>fi_AuthKey = KeyPrefix c, Filename = [], ImageURL = [], Threshold = f64_0_7 fl,
      withFile = False\<rparr>"

definition WithURL :: "string \<Rightarrow> 'f FaceDetectInitializer \<Rightarrow> 'f FaceDetectInitializer" where
  "WithURL url fi = fi\<lparr>ImageURL := url, withFile := False\<rparr>"

definition WithFile :: "string \<Rightarrow> 'f FaceDetectInitializer \<Rightarrow> 'f FaceDetectInitializer" where
  "WithFile filename fi = fi\<lparr>Filename := filename, withFile := True\<rparr>"

definition fi_AuthorizeWith :: "env \<Rightarrow> string \<Rightarrow> 'f FaceDetectInitializer \<Rightarrow> 'f FaceDetectInitializer" where
  "fi_AuthorizeWith c key fi = fi\<lparr>fi_AuthKey := FormatKey c key\<rparr>"

definition ThresholdAt ::
  "'f float64_ops \<Rightarrow> invocation \<Rightarrow> 'f \<Rightarrow> 'f FaceDetectInitializer \<Rightarrow> 'f FaceDetectInitializer \<times> outcome" where
  "ThresholdAt fl how val fi =
     (if f64_le fl (f64_0_1 fl) val \<and> f64_le fl val (f64_1_0 fl)
      then (fi\<lparr>Threshold := val\<rparr>, recover_block how)
      else (fi, Panicked (errors_New ''threshold must be between 0.1 and 1.0'')))"

text \<open>
  The file system and the multipart writer, as \<open>Collect\<close> meets them.
  \<open>os_Open name\<close> is the error of \<open>os.Open\<close> or the opened file. Of a file:
  \<open>Stat_Size\<close> is \<open>Size()\<close> of what \<open>file.Stat()\<close> returns, an \<open>int64\<close> read as an
  integer, and \<open>None\<close> when \<open>Stat\<close> fails (the source drops that error and holds a
  nil \<open>FileInfo\<close>); \<open>Read\<close> is what \<open>io.Copy\<close> gets out of it, an error or its bytes.
  \<open>CreateFormFile\<close> is the error of \<open>writer.CreateFormFile\<close>;
  \<open>FormDataContentType\<close> is the content type with the writer's boundary.
\<close>

record os_File =
  Stat_Size :: "int option"
  Read :: "string + string"

record os =
  os_Open :: "string \<Rightarrow> string + os_File"
  CreateFormFile :: "string \<Rightarrow> string \<Rightarrow> string option"
  FormDataContentType :: string

text \<open>How \<open>Collect\<close> ends: it returns \<open>res\<close> and \<open>err\<close>, or the runtime panics.\<close>

datatype 'f collect_end =
    Collect_returns "'f FaceDetectResult" "error option"
  | Collect_panics string

definition nil_dereference :: string where
  "nil_dereference = ''runtime error: invalid memory address or nil pointer dereference''"

text \<open>
  From \<open>req.Close = true\<close> to the end of \<open>Collect\<close>: both branches continue here
  with the request they built. The second component lists the requests handed to
  \<open>client.Do\<close>.
\<close>

definition Collect_send ::
  "env \<Rightarrow> 'f FaceDetectResult http \<Rightarrow> 'f FaceDetectInitializer \<Rightarrow> request
     \<Rightarrow> 'f collect_end \<times> request list" where
  "Collect_send c h fi req0 =
     (let req = Header_Add (Authorization c) (fi_AuthKey fi) (req0\<lparr>Close := True\<rparr>) in
      case client_Do h req of
        Inl e \<Rightarrow> (Collect_returns zero_FaceDetectResult (Some (LibError e)), [req])
      | Inr resp_body \<Rightarrow>
         (case Decode h resp_body of
            (r, Some e) \<Rightarrow> (Collect_returns r (Some (LibError e)), [req])
          | (r, None) \<Rightarrow> (Collect_returns r None, [req])))"

text \<open>
  \<open>Collect\<close>, on the side of the merge conflict left in the source that declares
  \<open>req\<close> (the other side does not compile). In the file branch \<open>file, err := os.Open\<close>
  declares a new \<open>err\<close>; it is nil once the file is open, and it is the \<open>err\<close> that
  the size check returns.
\<close>

definition Collect ::
  "'f float64_ops \<Rightarrow> env \<Rightarrow> os \<Rightarrow> 'f FaceDetectResult http \<Rightarrow> 'f FaceDetectInitializer
     \<Rightarrow> 'f collect_end \<times> request list" where
  "Collect fl c fs h fi =
     (if withFile fi then
        (case os_Open fs (Filename fi) of
           Inl e \<Rightarrow> (Collect_returns zero_FaceDetectResult (Some (LibError e)), [])
         | Inr f \<Rightarrow>
            (case Stat_Size f of
               None \<Rightarrow> (Collect_panics nil_dereference, [])
             | Some n \<Rightarrow>
                if 2 * 1024 * 1024 < n then (Collect_returns zero_FaceDetectResult None, [])
                else
                  (case CreateFormFile fs ''image'' (Filename fi) of
                     Some e \<Rightarrow> (Collect_returns zero_FaceDetectResult (Some (LibError e)), [])
                   | None \<Rightarrow>
                      (case Read f of
                         Inl e \<Rightarrow> (Collect_returns zero_FaceDetectResult (Some (LibError e)), [])
                       | Inr bytes \<Rightarrow>
                          (let form = Multipart [(''threshold'', Sprint_f fl (Threshold fi))]
                                        (''image'', Filename fi, bytes);
                               url = prefix c @ ''/face/detect''
                           in case NewRequest h ''POST'' url of
                                Some e \<Rightarrow>
                                  (Collect_returns zero_FaceDetectResult (Some (LibError e)), [])
                              | None \<Rightarrow>
                                  Collect_send c h fi
                                    (Header_Add ''Content-Type'' (FormDataContentType fs)
                                       (new_request ''POST'' url form)))))))
      else
        (let url = prefix c @ ''/face/detect?threshold='' @ Sprint_f fl (Threshold fi)
                     @ ''&image_url='' @ ImageURL fi
         in case NewRequest h ''POST'' url of
              Some e \<Rightarrow> (Collect_returns zero_FaceDetectResult (Some (LibError e)), [])
            | None \<Rightarrow> Collect_send c h fi (new_request ''POST'' url NoBody)))"

section \<open>Sample values of the parameters\<close>

text \<open>
  Concrete values at which the theorems below are instantiated: an environment, worlds
  that answer every request with a given decoded result or fail the transfer, a file
  system holding one file of a given size, and the reals standing in for \<open>float64\<close>.
\<close>

definition sample_env :: env where
  "sample_env =
     \<lparr>KeyPrefix = ''KakaoAK '',
      FormatKey = (\<lambda>key. ''KakaoAK '' @ key),
      Authorization = ''Authorization'',
      TrimSpace = (\<lambda>s. s),
      QueryEscape = (\<lambda>s. s),
      prefix = ''https://dapi.kakao.com/v2/vision''\<rparr>"

definition answering :: "'r \<Rightarrow> 'r http" where
  "answering r =
     \<lparr>NewRequest = (\<lambda>m u. None), client_Do = (\<lambda>req. Inr ''{}''), Decode = (\<lambda>b. (r, None))\<rparr>"

definition unreachable :: "'r \<Rightarrow> 'r http" where
  "unreachable r =
     \<lparr>NewRequest = (\<lambda>m u. None), client_Do = (\<lambda>req. Inl ''dial tcp: no route to host''),
      Decode = (\<lambda>b. (r, None))\<rparr>"

definition sample_book :: "unit BookResult" where
  "sample_book =
     \<lparr>WebResult = (), ISBN = ''8998139766'', Authors = [''Jo''], Publisher = ''Wikibooks'',
      Translators = [], Price = 38000, SalePrice = 34200, Thumbnail = [], Status = []\<rparr>"

definition sample_page :: "bool \<Rightarrow> nat \<Rightarrow> unit BookSearchResult" where
  "sample_page is_end n =
     \<lparr>Meta = \<lparr>TotalCount = 120, IsEnd = is_end\<rparr>, Documents = replicate n sample_book\<rparr>"


definition sample_float64 :: "real float64_ops" where
  "sample_float64 =
     \<lparr>f64_le = (\<le>), f64_0_1 = 1 / 10, f64_0_7 = 7 / 10, f64_1_0 = 1,
      Sprint_f = (\<lambda>x. ''0.700000'')\<rparr>"

definition holding :: "int \<Rightarrow> os" where
  "holding n =
     \<lparr>os_Open = (\<lambda>name. Inr \<lparr>Stat_Size = Some n, Read = Inr ''JFIF''\<rparr>),
      CreateFormFile = (\<lambda>fieldname filename. None),
      FormDataContentType = ''multipart/form-data; boundary=b''\<rparr>"

section \<open>The example chain of the spec\<close>


text \<open>Whether a setter ended in the block guarded by \<open>r != nil\<close>.\<close>

fun recover_branch_taken :: "outcome \<Rightarrow> bool" where
  "recover_branch_taken Returned = False"
| "recover_branch_taken (Panicked e) = False"
| "recover_branch_taken (LogPanicln r) = True"


section \<open>Properties\<close>

subsection \<open>Shared facts\<close>

lemma in_range_sint: "(1 \<le>s (n::go_int) \<and> n \<le>s 50) = (1 \<le> sint n \<and> sint n \<le> 50)"
  by (simp add: word_sle_eq)

lemma recover_block_Called: "recover_block Called = Returned"
  by (simp add: recover_block_def)


lemma last_page:
  "iter (Next sample_env (answering (sample_page True 3)) (BookSearch sample_env ''go''))
     = (BookSearch sample_env ''go'')\<lparr>Page := 2, ended := True\<rparr>"
  by (simp add: Next_def BookSearch_def answering_def sample_page_def Let_def)

subsection \<open>The range checks of \<open>Result\<close> and \<open>Display\<close>\<close>



subsection \<open>The targets of \<open>Filter\<close>\<close>



subsection \<open>Setters of different fields commute\<close>

lemma call_setter_valid:
  "valid_argument s \<Longrightarrow> snd (call_setter c Called s bi) = Returned"
  by (cases s) (auto simp: SortBy_def Result_def Display_def Filter_def in_range_sint
      recover_block_Called)

lemma call_setter_writes:
  "valid_argument s \<Longrightarrow>
   fst (call_setter c Called s bi) =
     (case s of
        Set_AuthorizeWith key \<Rightarrow> bi\<lparr>AuthKey := FormatKey c key\<rparr>
      | Set_SortBy order \<Rightarrow> bi\<lparr>Sort := order\<rparr>
      | Set_Result page \<Rightarrow> bi\<lparr>Page := page\<rparr>
      | Set_Display sz \<Rightarrow> bi\<lparr>Size := sz\<rparr>
      | Set_Filter target \<Rightarrow> bi\<lparr>Target := target\<rparr>)"
  by (cases s) (auto simp: AuthorizeWith_def SortBy_def Result_def Display_def Filter_def
      in_range_sint)

lemma and_then_Returned:
  "snd x = Returned \<Longrightarrow> and_then x f = f (fst x)"
  by (cases x) simp

text \<open>
  C8. For two setters of different fields (any two of \<open>AuthorizeWith\<close>, \<open>SortBy\<close>,
  \<open>Result\<close>, \<open>Display\<close>, \<open>Filter\<close>) called with valid arguments, the chain in one
  order and the chain in the other leave the same iterator, and both return.
\<close>

theorem distinct_setters_commute:
  assumes "field_of s \<noteq> field_of t" and "valid_argument s" and "valid_argument t"
  shows "and_then (call_setter c Called s bi) (call_setter c Called t)
       = and_then (call_setter c Called t bi) (call_setter c Called s)
     \<and> snd (and_then (call_setter c Called s bi) (call_setter c Called t)) = Returned"
proof -
  let ?st = "and_then (call_setter c Called s bi) (call_setter c Called t)"
  let ?ts = "and_then (call_setter c Called t bi) (call_setter c Called s)"
  have st: "?st = call_setter c Called t (fst (call_setter c Called s bi))"
    using assms(2) by (simp add: and_then_Returned call_setter_valid)
  have ts: "?ts = call_setter c Called s (fst (call_setter c Called t bi))"
    using assms(3) by (simp add: and_then_Returned call_setter_valid)
  have "fst ?st = fst ?ts"
    using assms unfolding st ts
    by (cases s; cases t) (simp_all add: call_setter_writes del: call_setter.simps valid_argument.simps)
  moreover have "snd ?st = Returned" "snd ?ts = Returned"
    using assms unfolding st ts by (simp_all add: call_setter_valid)
  ultimately show ?thesis
    by (simp add: prod_eq_iff)
qed

theorem distinct_setters_commute_witness:
  "field_of (Set_Result 3) \<noteq> field_of (Set_Display 20)
   \<and> valid_argument (Set_Result 3) \<and> valid_argument (Set_Display 20)
   \<and> and_then (call_setter sample_env Called (Set_Result 3) (BookSearch sample_env ''go''))
        (call_setter sample_env Called (Set_Display 20))
     = and_then (call_setter sample_env Called (Set_Display 20) (BookSearch sample_env ''go''))
        (call_setter sample_env Called (Set_Result 3))
   \<and> and_then (call_setter sample_env Called (Set_Display 20) (BookSearch sample_env ''go''))
        (call_setter sample_env Called (Set_Result 3))
     = ((BookSearch sample_env ''go'')\<lparr>Page := 3, Size := 20\<rparr>, Returned)"
proof -
  have f: "field_of (Set_Result 3) \<noteq> field_of (Set_Display 20)" by simp
  have s: "valid_argument (Set_Result 3)" by simp
  have t: "valid_argument (Set_Display 20)" by simp
  have v: "and_then (call_setter sample_env Called (Set_Display 20) (BookSearch sample_env ''go''))
        (call_setter sample_env Called (Set_Result 3))
     = ((BookSearch sample_env ''go'')\<lparr>Page := 3, Size := 20\<rparr>, Returned)"
    by (simp add: Display_def Result_def recover_block_Called BookSearch_def word_sle_eq)
  from distinct_setters_commute [OF f s t, of sample_env "BookSearch sample_env ''go''"] f s t v
  show ?thesis by simp
qed

subsection \<open>The block after \<open>recover()\<close>\<close>

lemma recover_block_taken:
  "recover_branch_taken (recover_block how) = (\<exists>p. how = Deferred (Some p))"
  by (cases how) (auto simp: recover_block_def split: option.splits)

text \<open>
  C4, as the code has it. For each of \<open>SortBy\<close>, \<open>Result\<close>, \<open>Display\<close>, \<open>Filter\<close> and
  \<open>ThresholdAt\<close>, the block guarded by \<open>r != nil\<close> is entered exactly when the
  argument is valid and the setter itself runs as a deferred function of a goroutine
  that is panicking. So it is never entered when the setter is reached by a call, nor
  when it is deferred and no panic is pending; and an invalid argument panics before
  \<open>recover()\<close> is evaluated, however the setter was invoked.
\<close>

theorem recover_branch_taken_iff:
  "recover_branch_taken (snd (SortBy how order bi))
     = ((\<exists>p. how = Deferred (Some p)) \<and> (order = ''accuracy'' \<or> order = ''latest''))
   \<and> recover_branch_taken (snd (Result how n bi))
     = ((\<exists>p. how = Deferred (Some p)) \<and> 1 \<le> sint n \<and> sint n \<le> 50)
   \<and> recover_branch_taken (snd (Display how n bi))
     = ((\<exists>p. how = Deferred (Some p)) \<and> 1 \<le> sint n \<and> sint n \<le> 50)
   \<and> recover_branch_taken (snd (Filter how target bi))
     = ((\<exists>p. how = Deferred (Some p))
        \<and> target \<in> {''title'', ''isbn'', ''publisher'', ''person'', []})
   \<and> recover_branch_taken (snd (ThresholdAt fl how val fi))
     = ((\<exists>p. how = Deferred (Some p)) \<and> f64_le fl (f64_0_1 fl) val \<and> f64_le fl val (f64_1_0 fl))"
proof (intro conjI)
  show "recover_branch_taken (snd (SortBy how order bi))
     = ((\<exists>p. how = Deferred (Some p)) \<and> (order = ''accuracy'' \<or> order = ''latest''))"
    by (simp add: SortBy_def recover_block_taken)
  show "recover_branch_taken (snd (Result how n bi))
     = ((\<exists>p. how = Deferred (Some p)) \<and> 1 \<le> sint n \<and> sint n \<le> 50)"
    by (simp add: Result_def recover_block_taken in_range_sint)
  show "recover_branch_taken (snd (Display how n bi))
     = ((\<exists>p. how = Deferred (Some p)) \<and> 1 \<le> sint n \<and> sint n \<le> 50)"
    by (simp add: Display_def recover_block_taken in_range_sint)
  show "recover_branch_taken (snd (Filter how target bi))
     = ((\<exists>p. how = Deferred (Some p))
        \<and> target \<in> {''title'', ''isbn'', ''publisher'', ''person'', []})"
    by (simp add: Filter_def recover_block_taken)
  show "recover_branch_taken (snd (ThresholdAt fl how val fi))
     = ((\<exists>p. how = Deferred (Some p)) \<and> f64_le fl (f64_0_1 fl) val \<and> f64_le fl val (f64_1_0 fl))"
    by (simp add: ThresholdAt_def recover_block_taken)
qed

theorem recover_branch_taken_iff_witness:
  "\<not> recover_branch_taken (snd (SortBy Called ''latest'' (BookSearch sample_env ''go'')))
   \<and> \<not> recover_branch_taken (snd (SortBy Called ''oldest'' (BookSearch sample_env ''go'')))
   \<and> \<not> recover_branch_taken (snd (Result Called 7 (BookSearch sample_env ''go'')))
   \<and> \<not> recover_branch_taken (snd (Display (Deferred None) 7 (BookSearch sample_env ''go'')))
   \<and> \<not> recover_branch_taken (snd (Filter Called [] (BookSearch sample_env ''go'')))
   \<and> \<not> recover_branch_taken
        (snd (ThresholdAt sample_float64 Called (1 / 2) (FaceDetect sample_float64 sample_env)))"
  using recover_branch_taken_iff [of Called "''latest''" "BookSearch sample_env ''go''" 7 "[]"
      sample_float64 "1 / 2" "FaceDetect sample_float64 sample_env"]
    recover_branch_taken_iff [of Called "''oldest''" "BookSearch sample_env ''go''" 7 "[]"
      sample_float64 "1 / 2" "FaceDetect sample_float64 sample_env"]
    recover_branch_taken_iff [of "Deferred None" "''latest''" "BookSearch sample_env ''go''" 7 "[]"
      sample_float64 "1 / 2" "FaceDetect sample_float64 sample_env"]
  by simp

text \<open>
  The block is not dead code. In
  \<^verbatim>\<open>func f(bi *BookSearchIterator) { defer bi.SortBy("latest"); panic("boom") }\<close>
  the runtime runs \<open>SortBy\<close> as the deferred function while the goroutine panics:
  \<open>Sort\<close> is set, \<open>recover()\<close> returns \<open>"boom"\<close>, and \<open>log.Panicln\<close> is executed.
\<close>

theorem deferred_setter_takes_recover_branch:
  "SortBy (Deferred (Some (PanicOther ''boom''))) ''latest'' (BookSearch sample_env ''go'')
     = ((BookSearch sample_env ''go'')\<lparr>Sort := ''latest''\<rparr>, LogPanicln (PanicOther ''boom''))
   \<and> recover_branch_taken
        (snd (SortBy (Deferred (Some (PanicOther ''boom''))) ''latest'' (BookSearch sample_env ''go'')))"
  by (simp add: SortBy_def recover_block_def)

subsection \<open>The end flag never resets\<close>

lemma ended_after: "ended bi \<Longrightarrow> ended (after c x bi)"
proof (cases x)
  case (Op_Next h)
  assume "ended bi"
  then show ?thesis using Op_Next by (simp add: Next_def)
next
  case (Op_Setter how s)
  assume e: "ended bi"
  show ?thesis
  proof (cases s)
    case (Set_AuthorizeWith key)
    with e Op_Setter show ?thesis by (simp add: AuthorizeWith_def)
  next
    case (Set_SortBy order)
    with e Op_Setter show ?thesis by (simp add: SortBy_def)
  next
    case (Set_Result page)
    with e Op_Setter show ?thesis by (simp add: Result_def)
  next
    case (Set_Display sz)
    with e Op_Setter show ?thesis by (simp add: Display_def)
  next
    case (Set_Filter target)
    with e Op_Setter show ?thesis by (simp add: Filter_def)
  qed
qed

text \<open>
  C5. Once the end flag of an iterator is true it is true after any sequence of
  \<open>Next\<close>, \<open>AuthorizeWith\<close>, \<open>SortBy\<close>, \<open>Result\<close>, \<open>Display\<close> and \<open>Filter\<close>, whatever
  their arguments, whatever the server answers and however each of them ends.
\<close>

theorem ended_is_permanent: "ended bi \<Longrightarrow> ended (after_all c ops bi)"
  by (induction ops arbitrary: bi) (simp_all add: ended_after)

theorem ended_is_permanent_witness:
  "ended (iter (Next sample_env (answering (sample_page True 3)) (BookSearch sample_env ''go'')))
   \<and> ended (after_all sample_env
        [Op_Next (answering (sample_page False 3)),
         Op_Setter Called (Set_Result 1),
         Op_Setter (Deferred None) (Set_SortBy ''oldest''),
         Op_Setter Called (Set_AuthorizeWith ''key'')]
        (iter (Next sample_env (answering (sample_page True 3)) (BookSearch sample_env ''go''))))"
proof (rule conjI)
  show e: "ended (iter (Next sample_env (answering (sample_page True 3)) (BookSearch sample_env ''go'')))"
    by (simp add: last_page)
  show "ended (after_all sample_env
        [Op_Next (answering (sample_page False 3)),
         Op_Setter Called (Set_Result 1),
         Op_Setter (Deferred None) (Set_SortBy ''oldest''),
         Op_Setter Called (Set_AuthorizeWith ''key'')]
        (iter (Next sample_env (answering (sample_page True 3)) (BookSearch sample_env ''go''))))"
    by (rule ended_is_permanent [OF e])
qed

subsection \<open>\<open>Next\<close>: exhaustion and failures\<close>



lemma Next_cases:
  "ended bi \<and> Next c h bi = \<lparr>res = zero_BookSearchResult, err = Some ErrEndPage, iter = bi, sent = []\<rparr>
   \<or> (\<exists>r m rs. Next c h bi = \<lparr>res = r, err = Some (LibError m), iter = bi, sent = rs\<rparr>)
   \<or> (\<exists>r. Next c h bi =
         \<lparr>res = r, err = None,
          iter = bi\<lparr>Page := Page bi + 1, ended := (IsEnd (Meta r) \<or> 50 <s Page bi + 1)\<rparr>,
          sent = [Next_request c bi]\<rparr>)"
  by (auto simp: Next_def Let_def split: option.splits sum.splits prod.splits)



text \<open>
  C9. When \<open>Next\<close> returns an error of the standard library (\<open>http.NewRequest\<close>,
  \<open>client.Do\<close> or the JSON decoder failed), the iterator is unchanged, \<open>Page\<close> and
  the end flag included, so that the following \<open>Next\<close> call does what it would have
  done in place of the failed one: it asks for the same page.
\<close>

theorem Next_error_keeps_state:
  assumes "err (Next c h bi) = Some (LibError m)"
  shows "iter (Next c h bi) = bi \<and> Next c h' (iter (Next c h bi)) = Next c h' bi"
  using Next_cases [of bi c h] assms by auto


theorem Next_error_keeps_state_witness:
  "err (Next sample_env (unreachable (sample_page False 3)) (BookSearch sample_env ''go''))
     = Some (LibError ''dial tcp: no route to host'')
   \<and> iter (Next sample_env (unreachable (sample_page False 3)) (BookSearch sample_env ''go''))
     = BookSearch sample_env ''go''
   \<and> sent (Next sample_env (answering (sample_page False 3))
        (iter (Next sample_env (unreachable (sample_page False 3)) (BookSearch sample_env ''go''))))
     = sent (Next sample_env (unreachable (sample_page False 3)) (BookSearch sample_env ''go''))"
proof -
  let ?bi = "BookSearch sample_env ''go''"
  have e: "err (Next sample_env (unreachable (sample_page False 3)) ?bi)
     = Some (LibError ''dial tcp: no route to host'')"
    by (simp add: Next_def BookSearch_def unreachable_def Let_def)
  have s: "sent (Next sample_env (answering (sample_page False 3)) ?bi)
     = sent (Next sample_env (unreachable (sample_page False 3)) ?bi)"
    by (simp add: Next_def BookSearch_def unreachable_def answering_def Let_def)
  from Next_error_keeps_state [OF e, of "answering (sample_page False 3)"] e s
  show ?thesis by simp
qed

subsection \<open>The example chain\<close>










subsection \<open>\<open>Collect\<close> and the size of the file\<close>

lemma Collect_oversized:
  "withFile fi \<Longrightarrow> os_Open fs (Filename fi) = Inr f \<Longrightarrow> Stat_Size f = Some n \<Longrightarrow>
   2 * 1024 * 1024 < n \<Longrightarrow>
   Collect fl c fs h fi = (Collect_returns zero_FaceDetectResult None, [])"
  by (simp add: Collect_def)

text \<open>
  C1, at a file of \<open>2 * 1024 * 1024 + 1\<close> bytes: \<open>Collect\<close> hands no request to
  \<open>client.Do\<close>, and it returns the zero result with a nil error, not an error.
\<close>

theorem Collect_oversized_returns_nil_error:
  "Collect sample_float64 sample_env (holding (2 * 1024 * 1024 + 1))
       (answering zero_FaceDetectResult)
       (WithFile ''big.jpg'' (FaceDetect sample_float64 sample_env))
     = (Collect_returns zero_FaceDetectResult None, [])"
  by (simp add: Collect_def WithFile_def FaceDetect_def holding_def)

text \<open>At the cap itself the file is sent.\<close>

lemma Collect_at_cap:
  "Collect sample_float64 sample_env (holding (2 * 1024 * 1024))
       (answering zero_FaceDetectResult)
       (WithFile ''ok.jpg'' (FaceDetect sample_float64 sample_env))
     = (Collect_returns zero_FaceDetectResult None,
        [\<lparr>Method = ''POST'', URL = ''https://dapi.kakao.com/v2/vision/face/detect'',
          Header = [(''Content-Type'', ''multipart/form-data; boundary=b''),
                    (''Authorization'', ''KakaoAK '')],
          Body = Multipart [(''threshold'', ''0.700000'')] (''image'', ''ok.jpg'', ''JFIF''),
          Close = True\<rparr>])"
  by (simp add: Collect_def Collect_send_def WithFile_def FaceDetect_def holding_def
      answering_def sample_env_def sample_float64_def Header_Add_def new_request_def)

end
